theory Spec2Isabelle
  imports Main "HOL-Library.Word"
begin

section \<open>The binary drawio document adapter (DrawioEditorProviderBinary.ts)\<close>

text \<open>
  The file under verification holds two classes, \<^verbatim>\<open>DrawioBinaryDocument\<close> and
  \<^verbatim>\<open>DrawioEditorProviderBinary\<close>. Both are adapters over collaborators that live
  outside the file: the file system (\<^verbatim>\<open>workspace.fs\<close>), the diagram instance
  (\<^verbatim>\<open>CustomDrawioInstance\<close>), \<^verbatim>\<open>Uri\<close>, \<^verbatim>\<open>Buffer\<close> and \<^verbatim>\<open>path.extname\<close>.

  The embedding passes state explicitly. A \<open>document\<close> record holds the fields of the
  class; a \<open>world\<close> record holds everything outside it: the files, the answers the
  collaborators give, the event subscriptions made on instances and a trace of every
  call that leaves the document. Each method returns its result (\<open>Inl\<close> for a thrown
  error or a rejected promise), the document and the world afterwards. The methods are
  given twice: run to their end, and, for \<open>save\<close>, \<open>saveAs\<close> and \<open>loadFromDisk\<close>, cut at
  each \<^verbatim>\<open>await\<close>, so that other operations can be handled while they are suspended.
\<close>

subsection \<open>Values\<close>

type_synonym bytes = "8 word list"

text \<open>A \<^verbatim>\<open>Uri\<close>, by the three accessors the code reads.\<close>

record Uri =
  fsPath :: string
  path :: string
  toString :: string

text \<open>The identity of a diagram instance.\<close>

datatype CustomDrawioInstance = Instance nat

record DrawioDocumentChange =
  newXml :: string

record CancellationToken =
  isCancellationRequested :: bool

record CustomDocumentBackupContext =
  destination :: Uri

datatype error =
    InstanceAlreadySet      \<comment> \<open>\<^verbatim>\<open>new Error("Instance already set!")\<close>\<close>
  | InvalidFileExtension    \<comment> \<open>\<^verbatim>\<open>new Error("Invalid file extension")\<close>\<close>
  | TypeError               \<comment> \<open>a method called on \<^verbatim>\<open>this._drawio!\<close> while it is undefined\<close>
  | FileSystemError         \<comment> \<open>a rejected \<^verbatim>\<open>workspace.fs\<close> call\<close>
  | DrawioError             \<comment> \<open>a rejected call on the instance\<close>

datatype event_kind = OnInit | OnChange | OnSave

datatype event = Init | Change DrawioDocumentChange | Save

datatype effect =
    ReadFile Uri
  | WriteFile Uri bytes
  | DeleteFile Uri
  | LoadXmlLike CustomDrawioInstance string
  | LoadPngWithEmbeddedXml CustomDrawioInstance bytes
  | Export CustomDrawioInstance string
  | GetXml CustomDrawioInstance
  | DocumentChange DrawioDocumentChange   \<comment> \<open>\<^verbatim>\<open>onChangeEmitter.fire(change)\<close>\<close>
  | InstanceSave                          \<comment> \<open>\<^verbatim>\<open>onInstanceSaveEmitter.fire()\<close>\<close>

subsection \<open>The library functions the code calls\<close>

text \<open>
  \<^verbatim>\<open>path.extname\<close>, \<^verbatim>\<open>Uri.parse\<close> and the UTF-8 conversions of \<^verbatim>\<open>Buffer\<close> are
  library code; the operations take them as parameters, so every theorem holds for any
  choice of them.
\<close>

record platform =
  extname :: "string \<Rightarrow> string"
  Uri_parse :: "string \<Rightarrow> Uri"
  utf8_decode :: "bytes \<Rightarrow> string"    \<comment> \<open>\<^verbatim>\<open>Buffer.from(content).toString("utf-8")\<close>\<close>
  utf8_encode :: "string \<Rightarrow> bytes"    \<comment> \<open>\<^verbatim>\<open>Buffer.from(xml, "utf-8")\<close>\<close>

text \<open>\<^verbatim>\<open>String.prototype.endsWith\<close>.\<close>

definition endsWith :: "string \<Rightarrow> string \<Rightarrow> bool" where
  "endsWith s searchString =
     (length searchString \<le> length s \<and> drop (length s - length searchString) s = searchString)"

text \<open>
  The truth value JavaScript gives a \<^verbatim>\<open>string | undefined\<close> in a condition:
  \<^verbatim>\<open>undefined\<close> and the empty string are both false.
\<close>

fun truthy :: "string option \<Rightarrow> bool" where
  "truthy None = False"
| "truthy (Some s) = (s \<noteq> [])"

subsection \<open>The world outside the document\<close>

record world =
  files :: "Uri \<rightharpoonup> bytes"
  read_fails :: "Uri \<Rightarrow> bool"
  write_fails :: "Uri \<Rightarrow> bool"
  delete_fails :: "Uri \<Rightarrow> bool"
  loadXmlLike_response :: "CustomDrawioInstance \<Rightarrow> string \<Rightarrow> error + unit"
  loadPng_response :: "CustomDrawioInstance \<Rightarrow> bytes \<Rightarrow> error + unit"
  export_response :: "CustomDrawioInstance \<Rightarrow> string \<Rightarrow> error + bytes"
  getXml_response :: "CustomDrawioInstance \<Rightarrow> error + string"
  subscriptions :: "(CustomDrawioInstance \<times> event_kind) list"
  trace :: "effect list"

definition log :: "effect \<Rightarrow> world \<Rightarrow> world" where
  "log e w = w\<lparr>trace := trace w @ [e]\<rparr>"

text \<open>\<^verbatim>\<open>workspace.fs\<close>: each call is fallible; reading or deleting a missing file fails.\<close>

definition readFile :: "Uri \<Rightarrow> world \<Rightarrow> (error + bytes) \<times> world" where
  "readFile u w =
     (if read_fails w u then (Inl FileSystemError, log (ReadFile u) w)
      else case files w u of
             None \<Rightarrow> (Inl FileSystemError, log (ReadFile u) w)
           | Some content \<Rightarrow> (Inr content, log (ReadFile u) w))"

definition writeFile :: "Uri \<Rightarrow> bytes \<Rightarrow> world \<Rightarrow> (error + unit) \<times> world" where
  "writeFile u content w =
     (if write_fails w u then (Inl FileSystemError, log (WriteFile u content) w)
      else (Inr (), log (WriteFile u content) (w\<lparr>files := (files w)(u \<mapsto> content)\<rparr>)))"

definition deleteFile :: "Uri \<Rightarrow> world \<Rightarrow> (error + unit) \<times> world" where
  "deleteFile u w =
     (if delete_fails w u \<or> files w u = None then (Inl FileSystemError, log (DeleteFile u) w)
      else (Inr (), log (DeleteFile u) (w\<lparr>files := (files w)(u := None)\<rparr>)))"

text \<open>The four operations of an instance the document calls.\<close>

definition loadXmlLike :: "CustomDrawioInstance \<Rightarrow> string \<Rightarrow> world \<Rightarrow> (error + unit) \<times> world" where
  "loadXmlLike i xml w = (loadXmlLike_response w i xml, log (LoadXmlLike i xml) w)"

definition loadPngWithEmbeddedXml ::
  "CustomDrawioInstance \<Rightarrow> bytes \<Rightarrow> world \<Rightarrow> (error + unit) \<times> world" where
  "loadPngWithEmbeddedXml i buffer w =
     (loadPng_response w i buffer, log (LoadPngWithEmbeddedXml i buffer) w)"

definition export :: "CustomDrawioInstance \<Rightarrow> string \<Rightarrow> world \<Rightarrow> (error + bytes) \<times> world" where
  "export i format w = (export_response w i format, log (Export i format) w)"

definition getXml :: "CustomDrawioInstance \<Rightarrow> world \<Rightarrow> (error + string) \<times> world" where
  "getXml i w = (getXml_response w i, log (GetXml i) w)"

subsection \<open>DrawioBinaryDocument\<close>

record document =
  uri :: Uri
  backupId :: "string option"
  priv_drawio :: "CustomDrawioInstance option"   \<comment> \<open>\<^verbatim>\<open>_drawio\<close>\<close>
  priv_isDirty :: bool                            \<comment> \<open>\<^verbatim>\<open>_isDirty\<close>\<close>
  currentXml :: "string option"

record CustomDocumentBackup =
  id_backup :: string
  delete_backup :: "world \<Rightarrow> (error + unit) \<times> world"

text \<open>The constructor, with the field initialisers of the class.\<close>

definition new_DrawioBinaryDocument :: "Uri \<Rightarrow> string option \<Rightarrow> document" where
  "new_DrawioBinaryDocument u b =
     \<lparr>uri = u, backupId = b, priv_drawio = None, priv_isDirty = False, currentXml = None\<rparr>"

definition drawio :: "document \<Rightarrow> CustomDrawioInstance option" where
  "drawio d = priv_drawio d"

definition isDirty :: "document \<Rightarrow> bool" where
  "isDirty d = priv_isDirty d"

definition loadFromDisk :: "document \<Rightarrow> world \<Rightarrow> (error + unit) \<times> document \<times> world" where
  "loadFromDisk d w =
     (let d1 = d\<lparr>priv_isDirty := False\<rparr> in
      if endsWith (fsPath (uri d1)) ''.png'' then
        (case readFile (uri d1) w of
           (Inl e, w1) \<Rightarrow> (Inl e, d1, w1)
         | (Inr buffer, w1) \<Rightarrow>
             (case drawio d1 of
                None \<Rightarrow> (Inl TypeError, d1, w1)
              | Some i \<Rightarrow>
                  (case loadPngWithEmbeddedXml i buffer w1 of (r, w2) \<Rightarrow> (r, d1, w2))))
      else (Inl InvalidFileExtension, d1, w))"

definition saveAs ::
  "platform \<Rightarrow> document \<Rightarrow> Uri \<Rightarrow> world \<Rightarrow> (error + unit) \<times> document \<times> world" where
  "saveAs p d target w =
     (case drawio d of
        None \<Rightarrow> (Inl TypeError, d, w)
      | Some i \<Rightarrow>
          (case export i (extname p (path target)) w of
             (Inl e, w1) \<Rightarrow> (Inl e, d, w1)
           | (Inr buffer, w1) \<Rightarrow> (case writeFile target buffer w1 of (r, w2) \<Rightarrow> (r, d, w2))))"

definition save :: "platform \<Rightarrow> document \<Rightarrow> world \<Rightarrow> (error + unit) \<times> document \<times> world" where
  "save p d w = (let d1 = d\<lparr>priv_isDirty := False\<rparr> in saveAs p d1 (uri d1) w)"

text \<open>
  The \<^verbatim>\<open>delete\<close> closure of the backup record: the \<^verbatim>\<open>try\<close>/\<^verbatim>\<open>catch\<close> turns a
  rejected deletion into a normal return.
\<close>

definition backup_delete :: "Uri \<Rightarrow> world \<Rightarrow> (error + unit) \<times> world" where
  "backup_delete dest w =
     (case deleteFile dest w of
        (Inl e, w1) \<Rightarrow> (Inr (), w1)
      | (Inr u, w1) \<Rightarrow> (Inr (), w1))"

definition backup ::
  "platform \<Rightarrow> document \<Rightarrow> Uri \<Rightarrow> world \<Rightarrow> (error + CustomDocumentBackup) \<times> document \<times> world"
where
  "backup p d dest w =
     (case drawio d of
        None \<Rightarrow> (Inl TypeError, d, w)
      | Some i \<Rightarrow>
          (case getXml i w of
             (Inl e, w1) \<Rightarrow> (Inl e, d, w1)
           | (Inr xml, w1) \<Rightarrow>
               (case writeFile dest (utf8_encode p xml) w1 of
                  (Inl e, w2) \<Rightarrow> (Inl e, d, w2)
                | (Inr u, w2) \<Rightarrow>
                    (Inr \<lparr>id_backup = toString dest, delete_backup = backup_delete dest\<rparr>,
                     d, w2))))"

definition dispose :: "document \<Rightarrow> world \<Rightarrow> (error + unit) \<times> document \<times> world" where
  "dispose d w = (Inr (), d, w)"

text \<open>
  The three handlers \<^verbatim>\<open>setDrawioInstance\<close> subscribes. In the init handler the calls of
  the first and the last branch are not awaited: a rejection of theirs is lost, only a
  synchronous \<^verbatim>\<open>TypeError\<close> would reach the handler's own promise.
\<close>

definition onInit_handler ::
  "platform \<Rightarrow> document \<Rightarrow> world \<Rightarrow> (error + unit) \<times> document \<times> world" where
  "onInit_handler p d w =
     (if truthy (currentXml d) then
        (case drawio d of
           None \<Rightarrow> (Inl TypeError, d, w)
         | Some i \<Rightarrow> (case loadXmlLike i (the (currentXml d)) w of (r, w1) \<Rightarrow> (Inr (), d, w1)))
      else if truthy (backupId d) then
        (let backupFile = Uri_parse p (the (backupId d)) in
         case readFile backupFile w of
           (Inl e, w1) \<Rightarrow> (Inl e, d, w1)
         | (Inr content, w1) \<Rightarrow>
             (let xml = utf8_decode p content in
              case drawio d of
                None \<Rightarrow> (Inl TypeError, d, w1)
              | Some i \<Rightarrow>
                  (case loadXmlLike i xml w1 of
                     (Inl e, w2) \<Rightarrow> (Inl e, d, w2)
                   | (Inr u, w2) \<Rightarrow> (Inr (), d\<lparr>priv_isDirty := True\<rparr>, w2))))
      else
        (case loadFromDisk d w of (r, d1, w1) \<Rightarrow> (Inr (), d1, w1)))"

definition onChange_handler ::
  "document \<Rightarrow> DrawioDocumentChange \<Rightarrow> world \<Rightarrow> (error + unit) \<times> document \<times> world" where
  "onChange_handler d change w =
     (Inr (), d\<lparr>currentXml := Some (newXml change), priv_isDirty := True\<rparr>,
      log (DocumentChange change) w)"

definition onSave_handler :: "document \<Rightarrow> world \<Rightarrow> (error + unit) \<times> document \<times> world" where
  "onSave_handler d w = (Inr (), d, log InstanceSave w)"

definition setDrawioInstance ::
  "document \<Rightarrow> CustomDrawioInstance \<Rightarrow> world \<Rightarrow> (error + unit) \<times> document \<times> world" where
  "setDrawioInstance d inst w =
     (case priv_drawio d of
        Some bound \<Rightarrow> (Inl InstanceAlreadySet, d, w)
      | None \<Rightarrow>
          (Inr (), d\<lparr>priv_drawio := Some inst\<rparr>,
           w\<lparr>subscriptions := subscriptions w @ [(inst, OnInit), (inst, OnChange), (inst, OnSave)]\<rparr>))"

text \<open>
  An instance firing an event: the handler the document subscribed for that kind of
  event on that instance runs; with no subscription nothing happens.
\<close>

fun kind_of :: "event \<Rightarrow> event_kind" where
  "kind_of Init = OnInit"
| "kind_of (Change c) = OnChange"
| "kind_of Save = OnSave"

fun handle :: "platform \<Rightarrow> event \<Rightarrow> document \<Rightarrow> world \<Rightarrow> (error + unit) \<times> document \<times> world" where
  "handle p Init d w = onInit_handler p d w"
| "handle p (Change c) d w = onChange_handler d c w"
| "handle p Save d w = onSave_handler d w"

definition fire ::
  "platform \<Rightarrow> CustomDrawioInstance \<Rightarrow> event \<Rightarrow> document \<Rightarrow> world
     \<Rightarrow> (error + unit) \<times> document \<times> world" where
  "fire p inst ev d w =
     (if (inst, kind_of ev) \<in> set (subscriptions w) then handle p ev d w else (Inr (), d, w))"

subsection \<open>DrawioEditorProviderBinary\<close>

definition saveCustomDocument ::
  "platform \<Rightarrow> document \<Rightarrow> CancellationToken \<Rightarrow> world \<Rightarrow> (error + unit) \<times> document \<times> world"
where
  "saveCustomDocument p doc cancellation w = save p doc w"

definition saveCustomDocumentAs ::
  "platform \<Rightarrow> document \<Rightarrow> Uri \<Rightarrow> CancellationToken \<Rightarrow> world
     \<Rightarrow> (error + unit) \<times> document \<times> world" where
  "saveCustomDocumentAs p doc dest cancellation w = saveAs p doc dest w"

definition revertCustomDocument ::
  "document \<Rightarrow> CancellationToken \<Rightarrow> world \<Rightarrow> (error + unit) \<times> document \<times> world" where
  "revertCustomDocument doc cancellation w = loadFromDisk doc w"

definition backupCustomDocument ::
  "platform \<Rightarrow> document \<Rightarrow> CustomDocumentBackupContext \<Rightarrow> CancellationToken \<Rightarrow> world
     \<Rightarrow> (error + CustomDocumentBackup) \<times> document \<times> world" where
  "backupCustomDocument p doc context cancellation w = backup p doc (destination context) w"

subsection \<open>Sequences of operations\<close>

text \<open>
  Everything that can happen to a document once it is constructed: a method of its own, a
  method of the provider, or an event fired by some instance. \<open>step\<close> keeps the
  document and the world and drops the result, as a caller that goes on after a rejected
  call does.
\<close>

datatype operation =
    DoSetDrawioInstance CustomDrawioInstance
  | DoFire CustomDrawioInstance event
  | DoLoadFromDisk
  | DoSave
  | DoSaveAs Uri
  | DoBackup Uri
  | DoDeleteBackup Uri
  | DoDispose
  | DoSaveCustomDocument CancellationToken
  | DoSaveCustomDocumentAs Uri CancellationToken
  | DoRevertCustomDocument CancellationToken
  | DoBackupCustomDocument CustomDocumentBackupContext CancellationToken

fun step :: "platform \<Rightarrow> operation \<Rightarrow> document \<times> world \<Rightarrow> document \<times> world" where
  "step p (DoSetDrawioInstance i) (d, w) = snd (setDrawioInstance d i w)"
| "step p (DoFire i ev) (d, w) = snd (fire p i ev d w)"
| "step p DoLoadFromDisk (d, w) = snd (loadFromDisk d w)"
| "step p DoSave (d, w) = snd (save p d w)"
| "step p (DoSaveAs target) (d, w) = snd (saveAs p d target w)"
| "step p (DoBackup dest) (d, w) = snd (backup p d dest w)"
| "step p (DoDeleteBackup dest) (d, w) = (d, snd (backup_delete dest w))"
| "step p DoDispose (d, w) = snd (dispose d w)"
| "step p (DoSaveCustomDocument t) (d, w) = snd (saveCustomDocument p d t w)"
| "step p (DoSaveCustomDocumentAs dest t) (d, w) = snd (saveCustomDocumentAs p d dest t w)"
| "step p (DoRevertCustomDocument t) (d, w) = snd (revertCustomDocument d t w)"
| "step p (DoBackupCustomDocument c t) (d, w) = snd (backupCustomDocument p d c t w)"

definition run :: "platform \<Rightarrow> operation list \<Rightarrow> document \<times> world \<Rightarrow> document \<times> world" where
  "run p ops s = fold (step p) ops s"

subsection \<open>Suspension at \<^verbatim>\<open>await\<close>\<close>









subsection \<open>Concrete inputs\<close>

text \<open>
  A platform and a world to evaluate the operations on. \<open>sample_extname\<close> takes the
  text from the last dot of the last path segment, unless that dot starts the segment;
  the UTF-8 conversions are the ones of ASCII text.
\<close>

definition file_uri :: "string \<Rightarrow> Uri" where
  "file_uri p = \<lparr>fsPath = p, path = p, toString = ''file://'' @ p\<rparr>"

definition sample_extname :: "string \<Rightarrow> string" where
  "sample_extname p =
     (let base = rev (takeWhile (\<lambda>c. c \<noteq> CHR ''/'') (rev p));
          ext = rev (takeWhile (\<lambda>c. c \<noteq> CHR ''.'') (rev base))
      in if length ext + 1 < length base then CHR ''.'' # ext else [])"

definition sample_platform :: platform where
  "sample_platform =
     \<lparr>extname = sample_extname,
      Uri_parse = (\<lambda>s. file_uri (drop 7 s)),
      utf8_decode = map (\<lambda>b. char_of (unat b)),
      utf8_encode = map of_char\<rparr>"

definition sample_world :: world where
  "sample_world =
     \<lparr>files = [file_uri ''/d/a.png'' \<mapsto> [137, 80], file_uri ''/b/1'' \<mapsto> [60, 120, 47, 62]],
      read_fails = (\<lambda>u. False),
      write_fails = (\<lambda>u. False),
      delete_fails = (\<lambda>u. False),
      loadXmlLike_response = (\<lambda>i xml. Inr ()),
      loadPng_response = (\<lambda>i buffer. Inr ()),
      export_response = (\<lambda>i format. if format = ''.png'' then Inr [137, 80, 78, 71] else Inl DrawioError),
      getXml_response = (\<lambda>i. Inr ''<x/>''),
      subscriptions = [],
      trace = []\<rparr>"

text \<open>
  Documents on that world: \<open>png_doc\<close> and \<open>xml_doc\<close> have instance 0 bound and neither
  snapshot nor backup; \<open>backup_doc\<close> is constructed with a backup identifier and
  \<open>restored_doc\<close> is the same with instance 0 bound; \<open>cached_doc\<close> and \<open>dirty_doc\<close>
  hold a snapshot. \<open>attached_world\<close> is the world after instance 0 was bound,
  \<open>readonly_world\<close> one where every write fails, \<open>readonly_attached_world\<close> both.
\<close>

definition png_doc :: document where
  "png_doc =
     (new_DrawioBinaryDocument (file_uri ''/d/a.png'') None)\<lparr>priv_drawio := Some (Instance 0)\<rparr>"

definition xml_doc :: document where
  "xml_doc =
     (new_DrawioBinaryDocument (file_uri ''/d/a.drawio'') None)\<lparr>priv_drawio := Some (Instance 0)\<rparr>"

definition backup_doc :: document where
  "backup_doc = new_DrawioBinaryDocument (file_uri ''/d/a.png'') (Some ''file:///b/1'')"

definition restored_doc :: document where
  "restored_doc = backup_doc\<lparr>priv_drawio := Some (Instance 0)\<rparr>"

definition cached_doc :: document where
  "cached_doc = png_doc\<lparr>currentXml := Some ''<y/>'', backupId := Some ''file:///b/1''\<rparr>"

definition dirty_doc :: document where
  "dirty_doc = png_doc\<lparr>priv_isDirty := True, currentXml := Some ''<y/>''\<rparr>"

definition attached_world :: world where
  "attached_world =
     sample_world\<lparr>subscriptions :=
       [(Instance 0, OnInit), (Instance 0, OnChange), (Instance 0, OnSave)]\<rparr>"

definition readonly_world :: world where
  "readonly_world = sample_world\<lparr>write_fails := (\<lambda>u. True)\<rparr>"


section \<open>Properties\<close>

subsection \<open>Facts about the concrete inputs\<close>

lemma sample_extname_png: "extname sample_platform ''/d/a.png'' = ''.png''"
  by (simp add: sample_platform_def sample_extname_def)

lemma sample_Uri_parse: "Uri_parse sample_platform ''file:///b/1'' = file_uri ''/b/1''"
  by (simp add: sample_platform_def)

lemma sample_Uri_parse_empty: "Uri_parse sample_platform '''' = file_uri ''''"
  by (simp add: sample_platform_def)

lemma sample_utf8_decode: "utf8_decode sample_platform [60, 120, 47, 62] = ''<x/>''"
  by code_simp

lemma sample_utf8_encode: "utf8_encode sample_platform ''<x/>'' = [60, 120, 47, 62]"
  by (simp add: sample_platform_def)

lemmas sample_platform_simps =
  sample_extname_png sample_Uri_parse sample_Uri_parse_empty sample_utf8_decode
  sample_utf8_encode

lemmas sample_defs =
  png_doc_def xml_doc_def backup_doc_def restored_doc_def cached_doc_def dirty_doc_def
  attached_world_def readonly_world_def new_DrawioBinaryDocument_def file_uri_def
  sample_world_def sample_platform_simps

lemma trace_sample_world: "trace sample_world = []"
  by (simp add: sample_world_def)

lemma trace_attached_world: "trace attached_world = []"
  by (simp add: attached_world_def sample_world_def)

subsection \<open>Events and their handlers\<close>

lemma fire_subscribed:
  "(i, kind_of ev) \<in> set (subscriptions w) \<Longrightarrow> fire p i ev d w = handle p ev d w"
  by (simp add: fire_def)

text \<open>Binding an instance to a fresh document subscribes the three handlers on it.\<close>

lemma setDrawioInstance_binds:
  "priv_drawio d = None \<Longrightarrow>
   setDrawioInstance d i w =
     (Inr (), d\<lparr>priv_drawio := Some i\<rparr>,
      w\<lparr>subscriptions := subscriptions w @ [(i, OnInit), (i, OnChange), (i, OnSave)]\<rparr>)"
  by (simp add: setDrawioInstance_def)

lemma onInit_cached:
  "priv_drawio d = Some i \<Longrightarrow> currentXml d = Some xml \<Longrightarrow> xml \<noteq> [] \<Longrightarrow>
   onInit_handler p d w = (Inr (), d, w\<lparr>trace := trace w @ [LoadXmlLike i xml]\<rparr>)"
  by (simp add: onInit_handler_def drawio_def loadXmlLike_def log_def)

lemma onInit_backup:
  "priv_drawio d = Some i \<Longrightarrow> \<not> truthy (currentXml d) \<Longrightarrow> backupId d = Some b \<Longrightarrow>
   b \<noteq> [] \<Longrightarrow> \<not> read_fails w (Uri_parse p b) \<Longrightarrow> files w (Uri_parse p b) = Some content \<Longrightarrow>
   loadXmlLike_response w i (utf8_decode p content) = Inr () \<Longrightarrow>
   onInit_handler p d w =
     (Inr (), d\<lparr>priv_isDirty := True\<rparr>,
      w\<lparr>trace := trace w @ [ReadFile (Uri_parse p b), LoadXmlLike i (utf8_decode p content)]\<rparr>)"
  by (simp add: onInit_handler_def drawio_def loadXmlLike_def readFile_def log_def Let_def)

lemma onInit_disk:
  "\<not> truthy (currentXml d) \<Longrightarrow> \<not> truthy (backupId d) \<Longrightarrow>
   onInit_handler p d w = (Inr (), snd (loadFromDisk d w))"
  by (simp add: onInit_handler_def split: prod.splits)

subsection \<open>What each method does to the document\<close>

lemma saveAs_frame: "fst (snd (saveAs p d target w)) = d"
  by (simp add: saveAs_def split: option.splits prod.splits sum.splits)

lemma saveAs_exports:
  "drawio d = Some i \<Longrightarrow> export_response w i (extname p (path target)) = Inr buffer \<Longrightarrow>
   \<not> write_fails w target \<Longrightarrow>
   saveAs p d target w =
     (Inr (), d,
      w\<lparr>files := (files w)(target \<mapsto> buffer),
        trace := trace w @ [Export i (extname p (path target)), WriteFile target buffer]\<rparr>)"
  by (simp add: saveAs_def export_def writeFile_def log_def)

lemma save_clears: "fst (snd (save p d w)) = d\<lparr>priv_isDirty := False\<rparr>"
  by (simp add: save_def Let_def saveAs_frame)

lemma loadFromDisk_clears: "fst (snd (loadFromDisk d w)) = d\<lparr>priv_isDirty := False\<rparr>"
  by (simp add: loadFromDisk_def Let_def split: option.splits prod.splits sum.splits)

lemma backup_frame: "fst (snd (backup p d dest w)) = d"
  by (simp add: backup_def split: option.splits prod.splits sum.splits)

lemma backup_delete_result: "fst (backup_delete dest w) = Inr ()"
  by (simp add: backup_delete_def split: prod.splits sum.splits)

lemma backup_delete_world:
  "snd (backup_delete dest w) =
     (if delete_fails w dest \<or> files w dest = None
      then w\<lparr>trace := trace w @ [DeleteFile dest]\<rparr>
      else w\<lparr>files := (files w)(dest := None), trace := trace w @ [DeleteFile dest]\<rparr>)"
  by (simp add: backup_delete_def deleteFile_def log_def)

subsection \<open>The bound instance is kept\<close>

lemma loadFromDisk_instance:
  "loadFromDisk d w = (r, d1, w1) \<Longrightarrow> priv_drawio d1 = priv_drawio d"
  using loadFromDisk_clears [of d w] by simp

lemma onInit_keeps_instance:
  "priv_drawio (fst (snd (onInit_handler p d w))) = priv_drawio d"
  by (auto simp: onInit_handler_def Let_def
        split: option.splits prod.splits sum.splits dest: loadFromDisk_instance)

lemma handle_keeps_instance:
  "priv_drawio (fst (snd (handle p ev d w))) = priv_drawio d"
  by (cases ev) (simp_all add: onInit_keeps_instance onChange_handler_def onSave_handler_def)

lemma step_keeps_instance:
  "priv_drawio d = Some i \<Longrightarrow> priv_drawio (fst (step p op (d, w))) = Some i"
  by (cases op)
     (simp_all add: setDrawioInstance_def fire_def handle_keeps_instance loadFromDisk_clears
        save_clears saveAs_frame backup_frame dispose_def saveCustomDocument_def
        saveCustomDocumentAs_def revertCustomDocument_def backupCustomDocument_def)

lemma run_keeps_instance:
  "priv_drawio (fst s) = Some i \<Longrightarrow> priv_drawio (fst (run p ops s)) = Some i"
proof (induction ops arbitrary: s)
  case Nil
  then show ?case by (simp add: run_def)
next
  case (Cons op ops)
  obtain d w where s: "s = (d, w)" by (cases s)
  with Cons.prems have "priv_drawio (fst (step p op s)) = Some i"
    by (simp add: step_keeps_instance)
  then have "priv_drawio (fst (run p ops (step p op s))) = Some i"
    by (rule Cons.IH)
  then show ?case by (simp add: run_def)
qed

subsection \<open>Suspended methods\<close>










subsection \<open>The init event\<close>

text \<open>
  C1, as the specification words it, reads "a snapshot exists" as \<open>currentXml\<close> being
  defined and "a backup identifier was supplied" as \<open>backupId\<close> being defined. The
  handler tests both fields for truth, and the empty string is false. A document
  constructed with the backup identifier \<open>''''\<close> and bound to an instance answers the
  init event with a disk load: the backup location is not read and the document stays
  clean.
\<close>

theorem C1_counterexample:
  "backupId (new_DrawioBinaryDocument (file_uri ''/d/a.png'') (Some '''')) = Some ''''
   \<and> trace (snd (run sample_platform [DoSetDrawioInstance (Instance 0), DoFire (Instance 0) Init]
         (new_DrawioBinaryDocument (file_uri ''/d/a.png'') (Some ''''), sample_world)))
     = [ReadFile (file_uri ''/d/a.png''), LoadPngWithEmbeddedXml (Instance 0) [137, 80]]
   \<and> ReadFile (Uri_parse sample_platform '''')
       \<notin> set (trace (snd (run sample_platform
             [DoSetDrawioInstance (Instance 0), DoFire (Instance 0) Init]
             (new_DrawioBinaryDocument (file_uri ''/d/a.png'') (Some ''''), sample_world))))
   \<and> \<not> isDirty (fst (run sample_platform [DoSetDrawioInstance (Instance 0), DoFire (Instance 0) Init]
         (new_DrawioBinaryDocument (file_uri ''/d/a.png'') (Some ''''), sample_world)))"
  by (simp add: run_def setDrawioInstance_def fire_def onInit_handler_def loadFromDisk_def
        readFile_def loadPngWithEmbeddedXml_def log_def drawio_def isDirty_def endsWith_def
        new_DrawioBinaryDocument_def file_uri_def sample_world_def sample_Uri_parse_empty)

text \<open>
  C1 (amended). On the init event of the bound instance the document resolves its
  content in this order. If the cached XML snapshot is a non-empty string, it is pushed
  into the instance with \<open>loadXmlLike\<close> and nothing else happens. Otherwise (no snapshot,
  or the empty one), if the backup identifier given to the constructor is a non-empty
  string, the backup file is read, decoded as UTF-8 and pushed with \<open>loadXmlLike\<close>, and
  once the read and the load have succeeded the dirty flag is set. Otherwise (no backup
  identifier, or the empty one) \<open>loadFromDisk\<close> is called: the document and the world
  afterwards are the ones it leaves, and its result is not awaited.
\<close>

theorem C1_init_resolution:
  assumes "priv_drawio d = Some i" and "(i, OnInit) \<in> set (subscriptions w)"
  shows
   "(currentXml d = Some xml \<and> xml \<noteq> [] \<longrightarrow>
       fire p i Init d w = (Inr (), d, w\<lparr>trace := trace w @ [LoadXmlLike i xml]\<rparr>))
    \<and> ((currentXml d = None \<or> currentXml d = Some []) \<and> backupId d = Some b \<and> b \<noteq> []
        \<and> \<not> read_fails w (Uri_parse p b) \<and> files w (Uri_parse p b) = Some content
        \<and> loadXmlLike_response w i (utf8_decode p content) = Inr () \<longrightarrow>
       fire p i Init d w =
         (Inr (), d\<lparr>priv_isDirty := True\<rparr>,
          w\<lparr>trace := trace w @ [ReadFile (Uri_parse p b),
                                 LoadXmlLike i (utf8_decode p content)]\<rparr>))
    \<and> ((currentXml d = None \<or> currentXml d = Some [])
        \<and> (backupId d = None \<or> backupId d = Some []) \<longrightarrow>
       fire p i Init d w = (Inr (), snd (loadFromDisk d w)))"
proof -
  have f: "fire p i Init d w = onInit_handler p d w"
    using assms(2) by (simp add: fire_subscribed)
  have a: "currentXml d = Some xml \<and> xml \<noteq> [] \<longrightarrow>
       onInit_handler p d w = (Inr (), d, w\<lparr>trace := trace w @ [LoadXmlLike i xml]\<rparr>)"
    using assms(1) by (simp add: onInit_cached)
  have b: "(currentXml d = None \<or> currentXml d = Some []) \<and> backupId d = Some b \<and> b \<noteq> []
        \<and> \<not> read_fails w (Uri_parse p b) \<and> files w (Uri_parse p b) = Some content
        \<and> loadXmlLike_response w i (utf8_decode p content) = Inr () \<longrightarrow>
       onInit_handler p d w =
         (Inr (), d\<lparr>priv_isDirty := True\<rparr>,
          w\<lparr>trace := trace w @ [ReadFile (Uri_parse p b),
                                 LoadXmlLike i (utf8_decode p content)]\<rparr>)"
    using assms(1) onInit_backup [of d i b w p content] by auto
  have c: "(currentXml d = None \<or> currentXml d = Some [])
        \<and> (backupId d = None \<or> backupId d = Some []) \<longrightarrow>
       onInit_handler p d w = (Inr (), snd (loadFromDisk d w))"
    using onInit_disk [of d p w] by auto
  show ?thesis
    unfolding f using a b c by blast
qed

text \<open>
  The three branches at concrete documents: a cached snapshot wins over a backup
  identifier, a backup identifier wins over the disk and marks the document dirty, and
  with neither the PNG on disk is loaded.
\<close>

theorem C1_init_resolution_witness:
  "fire sample_platform (Instance 0) Init cached_doc attached_world =
     (Inr (), cached_doc, attached_world\<lparr>trace := [LoadXmlLike (Instance 0) ''<y/>'']\<rparr>)
   \<and> fire sample_platform (Instance 0) Init restored_doc attached_world =
     (Inr (), restored_doc\<lparr>priv_isDirty := True\<rparr>,
      attached_world\<lparr>trace := [ReadFile (file_uri ''/b/1''), LoadXmlLike (Instance 0) ''<x/>'']\<rparr>)
   \<and> fire sample_platform (Instance 0) Init png_doc attached_world =
     (Inr (), png_doc,
      attached_world\<lparr>trace := [ReadFile (file_uri ''/d/a.png''),
                                  LoadPngWithEmbeddedXml (Instance 0) [137, 80]]\<rparr>)"
  using C1_init_resolution [of cached_doc "Instance 0" attached_world "''<y/>''" sample_platform]
        C1_init_resolution [of restored_doc "Instance 0" attached_world _ sample_platform
                              "''file:///b/1''" "[60, 120, 47, 62]"]
        C1_init_resolution [of png_doc "Instance 0" attached_world _ sample_platform]
  by (simp add: sample_defs loadFromDisk_def readFile_def loadPngWithEmbeddedXml_def
        log_def drawio_def endsWith_def)

subsection \<open>The change event\<close>

text \<open>
  C2, as the specification words it, covers the empty payload, and there it does not
  hold. After a change event whose new XML is \<open>''''\<close> the snapshot is \<open>Some ''''\<close>,
  which the init handler takes for false: the next init event reads the backup file and
  pushes its text, not the cached XML.
\<close>

theorem C2_counterexample:
  "currentXml (fst (run sample_platform
       [DoSetDrawioInstance (Instance 0), DoFire (Instance 0) (Change \<lparr>newXml = ''''\<rparr>)]
       (backup_doc, sample_world))) = Some ''''
   \<and> trace (snd (run sample_platform
       [DoSetDrawioInstance (Instance 0), DoFire (Instance 0) (Change \<lparr>newXml = ''''\<rparr>),
        DoFire (Instance 0) Init]
       (backup_doc, sample_world)))
     = [DocumentChange \<lparr>newXml = ''''\<rparr>, ReadFile (file_uri ''/b/1''),
        LoadXmlLike (Instance 0) ''<x/>'']"
  by (simp add: run_def setDrawioInstance_def fire_def onInit_handler_def onChange_handler_def
        readFile_def loadXmlLike_def log_def drawio_def Let_def backup_doc_def
        new_DrawioBinaryDocument_def file_uri_def sample_world_def sample_platform_simps)

text \<open>
  C2 (amended). For every change event of the subscribed instance, whatever its payload
  (the empty string too), the document is dirty afterwards, the cached XML is the
  payload and one document-level change event is emitted. For every non-empty payload,
  an init event that follows, in any world, pushes exactly that cached XML and reads
  neither the backup file nor the disk file.
\<close>

theorem C2_change_event:
  assumes "(i, OnChange) \<in> set (subscriptions w)"
  shows
   "fire p i (Change c) d w =
      (Inr (), d\<lparr>currentXml := Some (newXml c), priv_isDirty := True\<rparr>,
       w\<lparr>trace := trace w @ [DocumentChange c]\<rparr>)
    \<and> isDirty (fst (snd (fire p i (Change c) d w)))
    \<and> currentXml (fst (snd (fire p i (Change c) d w))) = Some (newXml c)
    \<and> (newXml c \<noteq> [] \<and> priv_drawio d = Some i \<and> (i, OnInit) \<in> set (subscriptions w') \<longrightarrow>
        fire p i Init (fst (snd (fire p i (Change c) d w))) w' =
          (Inr (), fst (snd (fire p i (Change c) d w)),
           w'\<lparr>trace := trace w' @ [LoadXmlLike i (newXml c)]\<rparr>))"
proof -
  let ?d' = "d\<lparr>currentXml := Some (newXml c), priv_isDirty := True\<rparr>"
  have ch: "fire p i (Change c) d w = (Inr (), ?d', w\<lparr>trace := trace w @ [DocumentChange c]\<rparr>)"
    using assms by (simp add: fire_subscribed onChange_handler_def log_def)
  have init: "newXml c \<noteq> [] \<and> priv_drawio d = Some i \<and> (i, OnInit) \<in> set (subscriptions w') \<longrightarrow>
      fire p i Init ?d' w' = (Inr (), ?d', w'\<lparr>trace := trace w' @ [LoadXmlLike i (newXml c)]\<rparr>)"
    by (simp add: fire_subscribed onInit_cached)
  show ?thesis
    using init by (simp add: ch isDirty_def)
qed

text \<open>
  A change with the payload \<open>''<y/>''\<close> on a document that has a backup identifier: the
  init event that follows pushes \<open>''<y/>''\<close> and reads nothing.
\<close>

theorem C2_change_event_witness:
  "fire sample_platform (Instance 0) (Change \<lparr>newXml = ''<y/>''\<rparr>) restored_doc attached_world =
      (Inr (), restored_doc\<lparr>currentXml := Some ''<y/>'', priv_isDirty := True\<rparr>,
       attached_world\<lparr>trace := [DocumentChange \<lparr>newXml = ''<y/>''\<rparr>]\<rparr>)
   \<and> fire sample_platform (Instance 0) Init
        (restored_doc\<lparr>currentXml := Some ''<y/>'', priv_isDirty := True\<rparr>) attached_world =
      (Inr (), restored_doc\<lparr>currentXml := Some ''<y/>'', priv_isDirty := True\<rparr>,
       attached_world\<lparr>trace := [LoadXmlLike (Instance 0) ''<y/>'']\<rparr>)"
proof -
  have sub: "(Instance 0, OnChange) \<in> set (subscriptions attached_world)"
    by (simp add: attached_world_def)
  have pre: "priv_drawio restored_doc = Some (Instance 0)
      \<and> (Instance 0, OnInit) \<in> set (subscriptions attached_world)"
    by (simp add: restored_doc_def attached_world_def)
  note th = C2_change_event [OF sub, of sample_platform "\<lparr>newXml = ''<y/>''\<rparr>" restored_doc
                              attached_world]
  show ?thesis
    using th [THEN conjunct1] th [THEN conjunct2] pre
    by (simp add: trace_attached_world)
qed

subsection \<open>Loading from disk\<close>

text \<open>
  C3. \<open>loadFromDisk\<close> returns normally only for a document whose \<open>uri.fsPath\<close> ends in
  \<open>.png\<close> (the code's test of the file extension). For such a document it reads the file
  at \<open>uri\<close> and hands the bytes read to \<open>loadPngWithEmbeddedXml\<close> of the bound instance,
  whose result is its own. For any other path it throws "Invalid file extension" and
  leaves the world as it was: no file is read and the instance is not called.
\<close>

theorem C3_loadFromDisk:
  "(fst (loadFromDisk d w) = Inr () \<longrightarrow> endsWith (fsPath (uri d)) ''.png'')
   \<and> (endsWith (fsPath (uri d)) ''.png'' \<and> \<not> read_fails w (uri d)
        \<and> files w (uri d) = Some buffer \<and> drawio d = Some i \<longrightarrow>
      loadFromDisk d w =
        (loadPng_response w i buffer, d\<lparr>priv_isDirty := False\<rparr>,
         w\<lparr>trace := trace w @ [ReadFile (uri d), LoadPngWithEmbeddedXml i buffer]\<rparr>))
   \<and> (\<not> endsWith (fsPath (uri d)) ''.png'' \<longrightarrow>
      loadFromDisk d w = (Inl InvalidFileExtension, d\<lparr>priv_isDirty := False\<rparr>, w))"
  by (simp add: loadFromDisk_def readFile_def loadPngWithEmbeddedXml_def log_def drawio_def
        Let_def)

text \<open>A PNG document loads its two bytes; a \<open>.drawio\<close> document is refused untouched.\<close>

theorem C3_loadFromDisk_witness:
  "endsWith (fsPath (uri png_doc)) ''.png''
   \<and> loadFromDisk png_doc sample_world =
        (Inr (), png_doc,
         sample_world\<lparr>trace := [ReadFile (file_uri ''/d/a.png''),
                                LoadPngWithEmbeddedXml (Instance 0) [137, 80]]\<rparr>)
   \<and> \<not> endsWith (fsPath (uri xml_doc)) ''.png''
   \<and> loadFromDisk xml_doc sample_world = (Inl InvalidFileExtension, xml_doc, sample_world)"
  using C3_loadFromDisk [of png_doc sample_world "[137, 80]" "Instance 0"]
        C3_loadFromDisk [of xml_doc sample_world]
  by (simp add: png_doc_def xml_doc_def new_DrawioBinaryDocument_def file_uri_def
        sample_world_def endsWith_def drawio_def)

subsection \<open>The dirty flag is cleared before the I/O\<close>




subsection \<open>The instance reference is written once\<close>

text \<open>
  C5. \<open>setDrawioInstance\<close> returns normally exactly when no instance is bound, and then
  binds the given one. On a document with an instance bound it throws "Instance already
  set!" and leaves the document and the world, with the subscriptions in it, as they
  were. Once an instance is bound, no sequence of operations (methods of the document,
  methods of the provider, events of any instance) replaces or clears the reference.
\<close>

theorem C5_write_once:
  "(fst (setDrawioInstance d inst w) = Inr () \<longleftrightarrow> priv_drawio d = None)
   \<and> (priv_drawio d = None \<longrightarrow>
        priv_drawio (fst (snd (setDrawioInstance d inst w))) = Some inst)
   \<and> (priv_drawio d = Some i \<longrightarrow> setDrawioInstance d inst w = (Inl InstanceAlreadySet, d, w))
   \<and> (priv_drawio d = Some i \<longrightarrow> priv_drawio (fst (run p ops (d, w))) = Some i)"
  using run_keeps_instance [of "(d, w)" i p ops]
  by (auto simp: setDrawioInstance_def split: option.splits)

text \<open>
  A fresh document accepts instance 0; a document bound to instance 0 refuses instance 1
  and still holds instance 0 after a second binding attempt, an init event, a save, a
  backup, a disk load and a dispose.
\<close>

theorem C5_write_once_witness:
  "priv_drawio (new_DrawioBinaryDocument (file_uri ''/d/a.png'') None) = None
   \<and> fst (setDrawioInstance (new_DrawioBinaryDocument (file_uri ''/d/a.png'') None)
          (Instance 0) sample_world) = Inr ()
   \<and> priv_drawio (fst (snd (setDrawioInstance
          (new_DrawioBinaryDocument (file_uri ''/d/a.png'') None) (Instance 0) sample_world)))
       = Some (Instance 0)
   \<and> priv_drawio png_doc = Some (Instance 0)
   \<and> setDrawioInstance png_doc (Instance 1) attached_world
       = (Inl InstanceAlreadySet, png_doc, attached_world)
   \<and> priv_drawio (fst (run sample_platform
          [DoSetDrawioInstance (Instance 1), DoFire (Instance 0) Init, DoSave,
           DoBackup (file_uri ''/b/2''), DoLoadFromDisk, DoDispose]
          (png_doc, attached_world))) = Some (Instance 0)"
proof -
  have n: "priv_drawio (new_DrawioBinaryDocument (file_uri ''/d/a.png'') None) = None"
    by (simp add: new_DrawioBinaryDocument_def)
  have b: "priv_drawio png_doc = Some (Instance 0)"
    by (simp add: png_doc_def)
  show ?thesis
    using C5_write_once [of "new_DrawioBinaryDocument (file_uri ''/d/a.png'') None"
                            "Instance 0" sample_world]
          C5_write_once [of png_doc "Instance 1" attached_world "Instance 0" sample_platform
                            "[DoSetDrawioInstance (Instance 1), DoFire (Instance 0) Init, DoSave,
                              DoBackup (file_uri ''/b/2''), DoLoadFromDisk, DoDispose]"]
          n b
    by simp
qed

subsection \<open>Backup\<close>

text \<open>
  C6. For every destination, when the instance answers \<open>getXml\<close> and the write goes
  through, \<open>backup\<close> asks the instance for its XML (no export is requested), writes its
  UTF-8 encoding to the destination and returns a record whose \<open>id\<close> is the text of the
  destination and whose \<open>delete\<close> deletes that same location. \<open>delete\<close> never raises, in
  any world: not when the deletion fails, not when the file is missing, not when it is
  called a second time.
\<close>

theorem C6_backup:
  "drawio d = Some i \<and> getXml_response w i = Inr xml \<and> \<not> write_fails w dest \<longrightarrow>
   (\<exists>r. backup p d dest w =
          (Inr r, d,
           w\<lparr>files := (files w)(dest \<mapsto> utf8_encode p xml),
             trace := trace w @ [GetXml i, WriteFile dest (utf8_encode p xml)]\<rparr>)
        \<and> id_backup r = toString dest
        \<and> (\<forall>w'. fst (delete_backup r w') = Inr ()
                \<and> trace (snd (delete_backup r w')) = trace w' @ [DeleteFile dest]
                \<and> files (snd (delete_backup r w')) =
                    (if delete_fails w' dest then files w' else (files w')(dest := None))
                \<and> fst (delete_backup r (snd (delete_backup r w'))) = Inr ()))"
  by (auto simp: backup_def getXml_def writeFile_def log_def backup_delete_result
        backup_delete_world)

text \<open>
  The backup of \<open>png_doc\<close> to \<open>/b/2\<close> writes the four bytes of \<open><x/>\<close>; its \<open>delete\<close>
  returns normally twice in a row.
\<close>

theorem C6_backup_witness:
  "drawio png_doc = Some (Instance 0)
   \<and> getXml_response sample_world (Instance 0) = Inr ''<x/>''
   \<and> \<not> write_fails sample_world (file_uri ''/b/2'')
   \<and> (\<exists>r. backup sample_platform png_doc (file_uri ''/b/2'') sample_world =
          (Inr r, png_doc,
           sample_world\<lparr>files := (files sample_world)(file_uri ''/b/2'' \<mapsto> [60, 120, 47, 62]),
             trace := [GetXml (Instance 0), WriteFile (file_uri ''/b/2'') [60, 120, 47, 62]]\<rparr>)
        \<and> id_backup r = ''file:///b/2''
        \<and> fst (delete_backup r sample_world) = Inr ()
        \<and> fst (delete_backup r (snd (delete_backup r sample_world))) = Inr ())"
proof -
  have h: "drawio png_doc = Some (Instance 0)
      \<and> getXml_response sample_world (Instance 0) = Inr ''<x/>''
      \<and> \<not> write_fails sample_world (file_uri ''/b/2'')"
    by (simp add: drawio_def png_doc_def sample_world_def)
  have ts: "toString (file_uri ''/b/2'') = ''file:///b/2''"
    by (simp add: file_uri_def)
  from C6_backup [of png_doc "Instance 0" sample_world "''<x/>''" "file_uri ''/b/2''"
                     sample_platform] h
  obtain r where
    "backup sample_platform png_doc (file_uri ''/b/2'') sample_world =
          (Inr r, png_doc,
           sample_world\<lparr>files := (files sample_world)(file_uri ''/b/2'' \<mapsto> [60, 120, 47, 62]),
             trace := [GetXml (Instance 0), WriteFile (file_uri ''/b/2'') [60, 120, 47, 62]]\<rparr>)"
    "id_backup r = ''file:///b/2''"
    "\<forall>w'. fst (delete_backup r w') = Inr ()
          \<and> fst (delete_backup r (snd (delete_backup r w'))) = Inr ()"
    by (auto simp: trace_sample_world ts sample_utf8_encode)
  with h show ?thesis by blast
qed

subsection \<open>Saving\<close>

text \<open>
  C7. \<open>save\<close> clears the dirty flag and is then \<open>saveAs\<close> at the document's own \<open>uri\<close>:
  the instance is asked to export in the format \<open>extname (uri.path)\<close> and the buffer it
  returns is written to \<open>uri\<close>.
\<close>

theorem C7_save:
  "save p d w = saveAs p (d\<lparr>priv_isDirty := False\<rparr>) (uri d) w
   \<and> \<not> isDirty (fst (snd (save p d w)))
   \<and> (drawio d = Some i \<and> export_response w i (extname p (path (uri d))) = Inr buffer
       \<and> \<not> write_fails w (uri d) \<longrightarrow>
      save p d w =
        (Inr (), d\<lparr>priv_isDirty := False\<rparr>,
         w\<lparr>files := (files w)(uri d \<mapsto> buffer),
           trace := trace w @ [Export i (extname p (path (uri d))), WriteFile (uri d) buffer]\<rparr>))"
  using saveAs_exports [of "d\<lparr>priv_isDirty := False\<rparr>" i w p "uri d" buffer]
  by (simp add: save_def Let_def save_clears isDirty_def saveAs_frame drawio_def)

text \<open>Saving the dirty \<open>/d/a.png\<close> exports \<open>.png\<close> and overwrites the file.\<close>

theorem C7_save_witness:
  "drawio dirty_doc = Some (Instance 0)
   \<and> export_response sample_world (Instance 0) (extname sample_platform (path (uri dirty_doc)))
       = Inr [137, 80, 78, 71]
   \<and> \<not> write_fails sample_world (uri dirty_doc)
   \<and> isDirty dirty_doc
   \<and> save sample_platform dirty_doc sample_world =
        (Inr (), dirty_doc\<lparr>priv_isDirty := False\<rparr>,
         sample_world\<lparr>files := (files sample_world)(file_uri ''/d/a.png'' \<mapsto> [137, 80, 78, 71]),
           trace := [Export (Instance 0) ''.png'',
                     WriteFile (file_uri ''/d/a.png'') [137, 80, 78, 71]]\<rparr>)"
proof -
  have u: "uri dirty_doc = file_uri ''/d/a.png''" "path (file_uri ''/d/a.png'') = ''/d/a.png''"
    by (simp_all add: dirty_doc_def png_doc_def new_DrawioBinaryDocument_def file_uri_def)
  have h: "drawio dirty_doc = Some (Instance 0)
      \<and> export_response sample_world (Instance 0) (extname sample_platform (path (uri dirty_doc)))
          = Inr [137, 80, 78, 71]
      \<and> \<not> write_fails sample_world (uri dirty_doc)
      \<and> isDirty dirty_doc"
    by (simp add: u sample_extname_png)
       (simp add: drawio_def isDirty_def dirty_doc_def png_doc_def sample_world_def)
  show ?thesis
    using C7_save [of sample_platform dirty_doc sample_world "Instance 0" "[137, 80, 78, 71]",
                     THEN conjunct2] h
    by (simp add: u sample_extname_png trace_sample_world)
qed

text \<open>
  C8. For every target, \<open>saveAs\<close> returns the document it was given: the dirty flag, the
  cached XML, the instance reference, \<open>uri\<close> and \<open>backupId\<close> are the same before and
  after, whether it succeeds or fails. When the export and the write succeed, the
  instance was asked for the format \<open>extname (target.path)\<close> and the buffer it returned
  is the new content of the target.
\<close>

theorem C8_saveAs:
  "fst (snd (saveAs p d target w)) = d
   \<and> isDirty (fst (snd (saveAs p d target w))) = isDirty d
   \<and> currentXml (fst (snd (saveAs p d target w))) = currentXml d
   \<and> priv_drawio (fst (snd (saveAs p d target w))) = priv_drawio d
   \<and> uri (fst (snd (saveAs p d target w))) = uri d
   \<and> backupId (fst (snd (saveAs p d target w))) = backupId d
   \<and> (drawio d = Some i \<and> export_response w i (extname p (path target)) = Inr buffer
       \<and> \<not> write_fails w target \<longrightarrow>
      saveAs p d target w =
        (Inr (), d,
         w\<lparr>files := (files w)(target \<mapsto> buffer),
           trace := trace w @ [Export i (extname p (path target)), WriteFile target buffer]\<rparr>))"
  using saveAs_exports [of d i w p target buffer]
  by (simp add: saveAs_frame)

text \<open>\<open>saveAs\<close> of the dirty document writes the export and leaves the document dirty.\<close>

theorem C8_saveAs_witness:
  "drawio dirty_doc = Some (Instance 0)
   \<and> export_response sample_world (Instance 0) (extname sample_platform (path (file_uri ''/d/a.png'')))
       = Inr [137, 80, 78, 71]
   \<and> \<not> write_fails sample_world (file_uri ''/d/a.png'')
   \<and> saveAs sample_platform dirty_doc (file_uri ''/d/a.png'') sample_world =
        (Inr (), dirty_doc,
         sample_world\<lparr>files := (files sample_world)(file_uri ''/d/a.png'' \<mapsto> [137, 80, 78, 71]),
           trace := [Export (Instance 0) ''.png'',
                     WriteFile (file_uri ''/d/a.png'') [137, 80, 78, 71]]\<rparr>)
   \<and> isDirty (fst (snd (saveAs sample_platform dirty_doc (file_uri ''/d/a.png'') sample_world)))"
proof -
  have u: "path (file_uri ''/d/a.png'') = ''/d/a.png''"
    by (simp add: file_uri_def)
  have h: "drawio dirty_doc = Some (Instance 0)
      \<and> export_response sample_world (Instance 0)
           (extname sample_platform (path (file_uri ''/d/a.png''))) = Inr [137, 80, 78, 71]
      \<and> \<not> write_fails sample_world (file_uri ''/d/a.png'')
      \<and> isDirty dirty_doc"
    by (simp add: u sample_extname_png)
       (simp add: drawio_def isDirty_def dirty_doc_def png_doc_def sample_world_def)
  show ?thesis
    using C8_saveAs [of sample_platform dirty_doc "file_uri ''/d/a.png''" sample_world
                        "Instance 0" "[137, 80, 78, 71]"] h
    by (simp add: u sample_extname_png trace_sample_world)
qed

subsection \<open>The provider\<close>

text \<open>
  C9. Each lifecycle method of the provider is the corresponding method of the document,
  for every document, destination, context, world and cancellation token:
  \<open>saveCustomDocument\<close> is \<open>save\<close>, \<open>saveCustomDocumentAs\<close> is \<open>saveAs\<close> at the
  destination, \<open>revertCustomDocument\<close> is \<open>loadFromDisk\<close> and \<open>backupCustomDocument\<close> is
  \<open>backup\<close> at the destination of the context. Two calls that differ only in the token
  give the same result, document and world.
\<close>

theorem C9_provider_forwards:
  "saveCustomDocument p doc t w = save p doc w
   \<and> saveCustomDocumentAs p doc dest t w = saveAs p doc dest w
   \<and> revertCustomDocument doc t w = loadFromDisk doc w
   \<and> backupCustomDocument p doc c t w = backup p doc (destination c) w
   \<and> saveCustomDocument p doc t w = saveCustomDocument p doc t' w
   \<and> saveCustomDocumentAs p doc dest t w = saveCustomDocumentAs p doc dest t' w
   \<and> revertCustomDocument doc t w = revertCustomDocument doc t' w
   \<and> backupCustomDocument p doc c t w = backupCustomDocument p doc c t' w"
  by (simp add: saveCustomDocument_def saveCustomDocumentAs_def revertCustomDocument_def
        backupCustomDocument_def)

subsection \<open>Construction\<close>

text \<open>
  C10. A document just constructed is clean, holds no XML snapshot and no instance, and
  its \<open>uri\<close> and \<open>backupId\<close> are the constructor's arguments; the \<open>isDirty\<close> getter
  returns the private flag of any document.
\<close>

theorem C10_fresh_document:
  "isDirty (new_DrawioBinaryDocument u b) = False
   \<and> currentXml (new_DrawioBinaryDocument u b) = None
   \<and> priv_drawio (new_DrawioBinaryDocument u b) = None
   \<and> drawio (new_DrawioBinaryDocument u b) = None
   \<and> uri (new_DrawioBinaryDocument u b) = u
   \<and> backupId (new_DrawioBinaryDocument u b) = b
   \<and> isDirty d = priv_isDirty d"
  by (simp add: new_DrawioBinaryDocument_def isDirty_def drawio_def)

end
